theory Spec2Isabelle
  imports Main "HOL-Library.AList"
begin

section \<open>JavaScript values and strings\<close>

text \<open>
  A cell of a query result is a JSON value as the backend delivers it, or \<open>undefined\<close>
  when a row array is read past its end. Numbers are modelled as integers (the decimal
  rendition of \<open>String(n)\<close> is defined for them; fractional numbers have no model here).
  A structured value is opaque: \<open>Obj s\<close> carries the text \<open>String(value)\<close> yields for it.
  Strings are byte strings.
\<close>

datatype cell = Undefined | Null | Bool bool | Num int | Str string | Obj string

text \<open>The decimal digit \<open>d\<close> as a character, and the decimal rendition of a natural number.\<close>

definition digitChar :: "nat \<Rightarrow> char" where
  "digitChar d = char_of (d + 48)"

fun string_of_nat :: "nat \<Rightarrow> string" where
  "string_of_nat n =
     (let d = digitChar (n mod 10) in if n < 10 then [d] else string_of_nat (n div 10) @ [d])"

declare string_of_nat.simps [simp del]

text \<open>
  \<open>String(value)\<close>. Integers are printed in plain decimal: numbers of magnitude
  \<open>1e21\<close> and more, which JavaScript prints in exponent form, are outside the model.
\<close>

fun jsString :: "cell \<Rightarrow> string" where
  "jsString Undefined = ''undefined''"
| "jsString Null = ''null''"
| "jsString (Bool b) = (if b then ''true'' else ''false'')"
| "jsString (Num i) = (if i < 0 then CHR ''-'' # string_of_nat (nat (- i)) else string_of_nat (nat i))"
| "jsString (Str s) = s"
| "jsString (Obj s) = s"

text \<open>\<open>Array.prototype.join\<close> on an array of strings.\<close>

fun joinStr :: "string \<Rightarrow> string list \<Rightarrow> string" where
  "joinStr sep [] = []"
| "joinStr sep [x] = x"
| "joinStr sep (x # y # ys) = x @ sep @ joinStr sep (y # ys)"

text \<open>
  \<open>Array.prototype.join\<close> on an array of arbitrary values: \<open>null\<close> and \<open>undefined\<close>
  elements contribute the empty string, every other element its \<open>String\<close> rendition.
\<close>

definition joinCells :: "string \<Rightarrow> cell list \<Rightarrow> string" where
  "joinCells sep cs =
     joinStr sep (map (\<lambda>c. if c = Null \<or> c = Undefined then [] else jsString c) cs)"

text \<open>\<open>String.prototype.includes\<close>: a search for the argument at every position.\<close>

fun startsWith :: "string \<Rightarrow> string \<Rightarrow> bool" where
  "startsWith s [] = True"
| "startsWith [] (c # cs) = False"
| "startsWith (x # xs) (c # cs) = (x = c \<and> startsWith xs cs)"

fun includesStr :: "string \<Rightarrow> string \<Rightarrow> bool" where
  "includesStr [] sub = (sub = [])"
| "includesStr (x # xs) sub = (startsWith (x # xs) sub \<or> includesStr xs sub)"

text \<open>\<open>str.replace(/"/g, '""')\<close>.\<close>

fun replaceQuotes :: "string \<Rightarrow> string" where
  "replaceQuotes [] = []"
| "replaceQuotes (c # cs) =
     (if c = CHR 0x22 then CHR 0x22 # CHR 0x22 # replaceQuotes cs else c # replaceQuotes cs)"

text \<open>
  \<open>String.prototype.toLowerCase\<close>, on the ASCII letters (other bytes are kept).
  JavaScript's function is Unicode-aware: the case of non-ASCII letters is outside the
  model.
\<close>

definition lowerChar :: "char \<Rightarrow> char" where
  "lowerChar c =
     (let n = (of_char c :: nat) in if 65 \<le> n \<and> n \<le> 90 then char_of (n + 32) else c)"

definition toLowerCase :: "string \<Rightarrow> string" where
  "toLowerCase s = map lowerChar s"


section \<open>The query hook: \<open>useQueryExecution\<close>\<close>

record QueryResult =
  columns :: "string list"
  rows :: "cell list list"
  execution_time_ms :: nat

text \<open>The state the hook owns that the export functions can see.\<close>

record hook =
  query :: string
  result :: "QueryResult option"
  loading :: bool

text \<open>A file download: the blob's type, the link's \<open>download\<close> name and the blob's text.\<close>

record download =
  mime :: string
  filename :: string
  content :: string

text \<open>The callback of \<open>row.map\<close> in \<open>exportToCSV\<close>.\<close>

definition exportCell :: "cell \<Rightarrow> string" where
  "exportCell c =
     (if c = Null then []
      else let str = jsString c in
        if includesStr str '','' \<or> includesStr str [CHR 0x22] \<or> includesStr str [CHR 0x0A]
        then [CHR 0x22] @ replaceQuotes str @ [CHR 0x22]
        else str)"

definition exportCSVText :: "QueryResult \<Rightarrow> string" where
  "exportCSVText r =
     joinStr [CHR 0x0A]
       (joinStr '','' (columns r) # map (\<lambda>row. joinStr '','' (map exportCell row)) (rows r))"

text \<open>
  \<open>exportToCSV\<close>. The argument \<open>today\<close> is \<open>new Date().toISOString().slice(0, 10)\<close>.
  The function returns the hook state it leaves and the downloads it triggers.
\<close>

definition exportToCSV :: "string \<Rightarrow> hook \<Rightarrow> hook \<times> download list" where
  "exportToCSV today h =
     (case result h of
        None \<Rightarrow> (h, [])
      | Some r \<Rightarrow>
          (h, [\<lparr>mime = ''text/csv;charset=utf-8;'',
                filename = ''query_results_'' @ today @ ''.csv'',
                content = exportCSVText r\<rparr>]))"

text \<open>\<open>row[idx]\<close>: reading past the end of an array yields \<open>undefined\<close>.\<close>

definition jsIndex :: "cell list \<Rightarrow> nat \<Rightarrow> cell" where
  "jsIndex row idx = (if idx < length row then row ! idx else Undefined)"

text \<open>
  The object built by \<open>result.columns.forEach((col, idx) => { obj[col] = row[idx]; })\<close>
  from the empty object: an association list in insertion order, a repeated column name
  overwriting the earlier value in place. (JavaScript enumerates integer-like keys
  before the others; the order of such column names in the object is outside the model.
  Property reads do not depend on it.)
\<close>

definition rowObject :: "string list \<Rightarrow> cell list \<Rightarrow> (string \<times> cell) list" where
  "rowObject cols row =
     foldl (\<lambda>obj (col, idx). AList.update col (jsIndex row idx) obj) []
       (zip cols [0..<length cols])"

text \<open>
  \<open>exportToJSON\<close>. \<open>JSON.stringify(data, null, 2)\<close> is a function of the host; it is
  the parameter \<open>stringify\<close>.
\<close>

definition exportToJSON ::
  "((string \<times> cell) list list \<Rightarrow> string) \<Rightarrow> string \<Rightarrow> hook \<Rightarrow> hook \<times> download list" where
  "exportToJSON stringify today h =
     (case result h of
        None \<Rightarrow> (h, [])
      | Some r \<Rightarrow>
          (h, [\<lparr>mime = ''application/json'',
                filename = ''query_results_'' @ today @ ''.json'',
                content = stringify (map (rowObject (columns r)) (rows r))\<rparr>]))"


section \<open>The result viewer: \<open>ResultsTableEnhanced\<close>\<close>

text \<open>\<open>row[col]\<close> on a row object: a missing property reads as \<open>undefined\<close>.\<close>

definition getProp :: "(string \<times> cell) list \<Rightarrow> string \<Rightarrow> cell" where
  "getProp obj col = (case map_of obj col of None \<Rightarrow> Undefined | Some v \<Rightarrow> v)"

text \<open>The callback of \<open>result.columns.map\<close> in \<open>copyAsCSV\<close>; it returns a string or the raw value.\<close>

definition copyCell :: "cell \<Rightarrow> cell" where
  "copyCell v =
     (if v = Null then Str []
      else case v of
        Str s \<Rightarrow> if includesStr s '','' then Str ([CHR 0x22] @ s @ [CHR 0x22]) else v
      | _ \<Rightarrow> v)"

text \<open>\<open>copyAsCSV\<close> joins these lines with newlines: the header, then one line per selected row object.\<close>

definition copyCSVLines :: "QueryResult \<Rightarrow> (string \<times> cell) list list \<Rightarrow> string list" where
  "copyCSVLines r selectedData =
     joinStr '','' (columns r) #
     map (\<lambda>row. joinCells '','' (map (\<lambda>col. copyCell (getProp row col)) (columns r)))
       selectedData"

definition copyCSVText :: "QueryResult \<Rightarrow> (string \<times> cell) list list \<Rightarrow> string" where
  "copyCSVText r selectedData = joinStr [CHR 0x0A] (copyCSVLines r selectedData)"

subsection \<open>State of a viewer instance\<close>

text \<open>
  The \<open>result\<close> prop, the five \<open>useState\<close> cells and the scroll offset of the table
  container. \<open>sorting\<close> holds at most one (column id, descending) entry; \<open>columnFilters\<close>
  is the array of (column id, filter text) entries; \<open>rowSelection\<close> is the object from
  row id to boolean, as an association list in which every key occurs once. A row id is
  the row's index in the result.
\<close>

record viewer =
  resultProp :: "QueryResult option"
  sorting :: "(string \<times> bool) option"
  columnFilters :: "(string \<times> string) list"
  columnVisibility :: "(string \<times> bool) list"
  globalFilter :: string
  rowSelection :: "(nat \<times> bool) list"
  scrollTop :: nat

text \<open>A freshly mounted viewer: the initial values given to \<open>useState\<close>.\<close>

definition initViewer :: "QueryResult option \<Rightarrow> viewer" where
  "initViewer r =
     \<lparr>resultProp = r, sorting = None, columnFilters = [], columnVisibility = [],
      globalFilter = [], rowSelection = [], scrollTop = 0\<rparr>"

text \<open>The memoized \<open>data\<close>: one object per result row, none without a result.\<close>

definition data :: "QueryResult option \<Rightarrow> (string \<times> cell) list list" where
  "data res = (case res of None \<Rightarrow> [] | Some r \<Rightarrow> map (rowObject (columns r)) (rows r))"

text \<open>
  The table container (the element \<open>tableContainerRef\<close> points to) is rendered only past
  the two early returns: with a result that has at least one row.
\<close>

definition containerMounted :: "viewer \<Rightarrow> bool" where
  "containerMounted v = (case resultProp v of None \<Rightarrow> False | Some r \<Rightarrow> rows r \<noteq> [])"

subsection \<open>Rows and the column filter\<close>

text \<open>A table row: its positional identity and the row object it was made from.\<close>

record row =
  index :: nat
  original :: "(string \<times> cell) list"

text \<open>
  \<open>row.getValue(columnId)\<close> for a column declared with \<open>accessorKey: col\<close>: the read of
  the property \<open>col\<close> of the row object. (The table library reads a key that contains
  a dot as a path into nested objects; such column names are outside the model.)
\<close>

definition getValue :: "row \<Rightarrow> string \<Rightarrow> cell" where
  "getValue rw columnId = getProp (original rw) columnId"

text \<open>The \<open>filterFn\<close> of every data column; the filter value is the text of the filter input.\<close>

definition filterFn :: "row \<Rightarrow> string \<Rightarrow> string \<Rightarrow> bool" where
  "filterFn rw columnId filterValue =
     (let v = getValue rw columnId in
      if v = Null \<or> v = Undefined then False
      else let stringValue = toLowerCase (jsString v);
               stringFilter = toLowerCase filterValue
           in includesStr stringValue stringFilter)"

subsection \<open>The derived view\<close>

text \<open>
  The row models of the table library (\<open>getCoreRowModel\<close>, \<open>getFilteredRowModel\<close>,
  \<open>getSortedRowModel\<close>, \<open>table.getRowModel\<close>) are not among the sources; the definitions
  of this subsection follow the specification's Row Adapter and Derived Table Model.
\<close>

text \<open>
  Modelled from the spec: \<open>getCoreRowModel\<close> is missing. The Row Adapter produces one row
  per source row, in order, with the source index as identity.
\<close>

definition coreRows :: "(string \<times> cell) list list \<Rightarrow> row list" where
  "coreRows d = map (\<lambda>(i, obj). \<lparr>index = i, original = obj\<rparr>) (enumerate 0 d)"

text \<open>
  Modelled from the spec: the column part of \<open>getFilteredRowModel\<close> is missing. A row
  passes when the column's \<open>filterFn\<close> accepts it for every entry of the filter state;
  an entry with an empty text is no filter.
\<close>

definition passesColumnFilters :: "(string \<times> string) list \<Rightarrow> row \<Rightarrow> bool" where
  "passesColumnFilters cfs rw = list_all (\<lambda>(col, txt). txt = [] \<or> filterFn rw col txt) cfs"

text \<open>
  Modelled from the spec: the global part of \<open>getFilteredRowModel\<close> is missing. A row
  passes when the global text is empty or at least one column's predicate accepts the
  row with the global text.
\<close>

definition passesGlobalFilter :: "string list \<Rightarrow> string \<Rightarrow> row \<Rightarrow> bool" where
  "passesGlobalFilter cols g rw = (g = [] \<or> list_ex (\<lambda>col. filterFn rw col g) cols)"

text \<open>
  Modelled from the spec: the comparator of \<open>getSortedRowModel\<close> is missing. Strings
  compare lexicographically by character code, case-sensitively. The result is negative,
  zero or positive, as a JavaScript comparator's.
\<close>

fun compareStr :: "string \<Rightarrow> string \<Rightarrow> int" where
  "compareStr [] [] = 0"
| "compareStr [] (y # ys) = - 1"
| "compareStr (x # xs) [] = 1"
| "compareStr (x # xs) (y # ys) =
     (if (of_char x :: nat) < of_char y then - 1
      else if (of_char y :: nat) < of_char x then 1
      else compareStr xs ys)"

text \<open>Modelled from the spec: the comparator is missing. Numbers compare numerically.\<close>

definition compareInt :: "int \<Rightarrow> int \<Rightarrow> int" where
  "compareInt a b = (if a < b then - 1 else if b < a then 1 else 0)"

text \<open>
  Modelled from the spec: the comparator is missing. Null is lower than any non-null
  value. The specification fixes no order between values of different kinds; here the
  kinds are ordered null, undefined, boolean, number, string, structured.
\<close>

fun kindRank :: "cell \<Rightarrow> nat" where
  "kindRank Null = 0"
| "kindRank Undefined = 1"
| "kindRank (Bool b) = 2"
| "kindRank (Num i) = 3"
| "kindRank (Str s) = 4"
| "kindRank (Obj s) = 5"

text \<open>
  Modelled from the spec: the comparator is missing. Values of different kinds compare
  by kind; numbers numerically, strings lexicographically, booleans as 0/1; structured
  values, for which the specification fixes nothing, by their text.
\<close>

definition compareCells :: "cell \<Rightarrow> cell \<Rightarrow> int" where
  "compareCells a b =
     (if kindRank a < kindRank b then - 1
      else if kindRank b < kindRank a then 1
      else case (a, b) of
          (Bool x, Bool y) \<Rightarrow> compareInt (of_bool x) (of_bool y)
        | (Num x, Num y) \<Rightarrow> compareInt x y
        | (Str x, Str y) \<Rightarrow> compareStr x y
        | (Obj x, Obj y) \<Rightarrow> compareStr x y
        | _ \<Rightarrow> 0)"

text \<open>
  Modelled from the spec: \<open>getSortedRowModel\<close> is missing. \<open>rowLe col desc a b\<close> says that
  \<open>a\<close> may stand before \<open>b\<close> when sorting by the column in the direction: the comparator
  on the two keys, reversed when descending.
\<close>

definition rowLe :: "string \<Rightarrow> bool \<Rightarrow> row \<Rightarrow> row \<Rightarrow> bool" where
  "rowLe col desc a b =
     (if desc then compareCells (getValue b col) (getValue a col) \<le> 0
      else compareCells (getValue a col) (getValue b col) \<le> 0)"

text \<open>
  Modelled from the spec: \<open>getSortedRowModel\<close> is missing. One step of the stable sort: a
  row is inserted before the first row it may stand before.
\<close>

fun insertRow :: "(row \<Rightarrow> row \<Rightarrow> bool) \<Rightarrow> row \<Rightarrow> row list \<Rightarrow> row list" where
  "insertRow le x [] = [x]"
| "insertRow le x (y # ys) = (if le x y then x # y # ys else y # insertRow le x ys)"

text \<open>
  Modelled from the spec: \<open>getSortedRowModel\<close> is missing. The stable sort by one column
  and direction: the rows are inserted one by one, from the last to the first.
\<close>

definition sortRows :: "string \<Rightarrow> bool \<Rightarrow> row list \<Rightarrow> row list" where
  "sortRows col desc rs = foldr (insertRow (rowLe col desc)) rs []"

text \<open>
  Modelled from the spec: \<open>getFilteredRowModel\<close> is missing. The rows, in source order,
  that pass the column filters and the global filter (both must hold).
\<close>

definition filteredRows :: "viewer \<Rightarrow> row list" where
  "filteredRows v =
     (case resultProp v of
        None \<Rightarrow> []
      | Some r \<Rightarrow>
          filter (\<lambda>rw. passesColumnFilters (columnFilters v) rw
                       \<and> passesGlobalFilter (columns r) (globalFilter v) rw)
            (coreRows (data (resultProp v))))"

text \<open>
  Modelled from the spec: \<open>table.getRowModel\<close> is missing. The derived view
  (\<open>table.getRowModel().rows\<close>): the filtered rows, under the single active sort if there
  is one, in source order otherwise.
\<close>

definition getRowModel :: "viewer \<Rightarrow> row list" where
  "getRowModel v =
     (case sorting v of
        None \<Rightarrow> filteredRows v
      | Some (col, desc) \<Rightarrow> sortRows col desc (filteredRows v))"

text \<open>The identities of the derived view.\<close>

definition viewIds :: "viewer \<Rightarrow> nat set" where
  "viewIds v = index ` set (getRowModel v)"

subsection \<open>Selection\<close>

text \<open>\<open>Object.keys(rowSelection).filter(key => rowSelection[key]).length\<close>.\<close>

definition selectedRowCount :: "viewer \<Rightarrow> nat" where
  "selectedRowCount v =
     length (filter (\<lambda>k. map_of (rowSelection v) k = Some True) (map fst (rowSelection v)))"

text \<open>
  The selection operations of the table library (\<open>row.getIsSelected\<close>,
  \<open>table.toggleAllRowsSelected\<close>, \<open>table.getIsAllRowsSelected\<close>,
  \<open>table.getIsSomeRowsSelected\<close>) are not among the sources; the definitions below follow
  the specification's Selection Manager.
\<close>

text \<open>
  Modelled from the spec: \<open>row.getIsSelected\<close> is missing (\<open>isSelected(identity)\<close>). A row
  is selected when its identity is marked true in the selection state.
\<close>

definition getIsSelected :: "(nat \<times> bool) list \<Rightarrow> row \<Rightarrow> bool" where
  "getIsSelected sel rw = (map_of sel (index rw) = Some True)"

text \<open>The set of selected identities.\<close>

definition selectedIds :: "viewer \<Rightarrow> nat set" where
  "selectedIds v = {k. map_of (rowSelection v) k = Some True}"

text \<open>
  Modelled from the spec: the body of \<open>table.toggleAllRowsSelected(true)\<close> is missing
  (\<open>selectAllVisible(viewIdentities)\<close>). Every identity of the derived view is marked
  selected; what was selected before stays selected (selection is retained across
  filtering, and the action bar offers to select the remaining rows).
\<close>

definition selectAllVisible :: "nat list \<Rightarrow> (nat \<times> bool) list \<Rightarrow> (nat \<times> bool) list" where
  "selectAllVisible ids sel = foldl (\<lambda>s i. AList.update i True s) sel ids"

text \<open>
  Modelled from the spec: \<open>table.toggleAllRowsSelected\<close> is missing. With \<open>true\<close> it is
  select-all over the derived view. The call with \<open>false\<close>, which the specification does
  not describe, unmarks the identities of the derived view.
\<close>

definition toggleAllRowsSelected :: "bool \<Rightarrow> viewer \<Rightarrow> viewer" where
  "toggleAllRowsSelected val v =
     (if val
      then v\<lparr>rowSelection := selectAllVisible (map index (getRowModel v)) (rowSelection v)\<rparr>
      else v\<lparr>rowSelection :=
               filter (\<lambda>(k, b). k \<notin> set (map index (getRowModel v))) (rowSelection v)\<rparr>)"

text \<open>
  Modelled from the spec: \<open>table.getIsAllRowsSelected\<close> and \<open>table.getIsSomeRowsSelected\<close>
  are missing (\<open>aggregateState\<close>). Whether none, some or all rows of the current derived
  view are selected; rows hidden by a filter do not count.
\<close>

datatype aggregate = NoneSelected | SomeSelected | AllSelected

definition aggregateState :: "viewer \<Rightarrow> aggregate" where
  "aggregateState v =
     (let view = getRowModel v; chosen = filter (getIsSelected (rowSelection v)) view
      in if chosen = [] then NoneSelected
         else if length chosen = length view then AllSelected
         else SomeSelected)"

text \<open>A keyboard event, as far as \<open>handleKeyDown\<close> reads it.\<close>

record keyEvent =
  metaKey :: bool
  ctrlKey :: bool
  key :: string

text \<open>
  \<open>handleKeyDown\<close>. \<open>isTableInFocus\<close> is
  \<open>tableContainerRef.current.contains(document.activeElement)\<close>; the container reference
  is non-null when the container is mounted.
\<close>

definition handleKeyDown :: "keyEvent \<Rightarrow> bool \<Rightarrow> viewer \<Rightarrow> viewer" where
  "handleKeyDown e isTableInFocus v =
     (let currentSelectedCount = selectedRowCount v;
          v1 = (if (metaKey e \<or> ctrlKey e) \<and> key e = ''a'' \<and> containerMounted v
                   \<and> isTableInFocus
                then toggleAllRowsSelected True v else v)
      in if key e = ''Escape'' \<and> currentSelectedCount > 0
         then v1\<lparr>rowSelection := []\<rparr> else v1)"

text \<open>\<open>getSelectedRowsData\<close>: the selected rows of the derived view, as row objects.\<close>

definition getSelectedRowsData :: "viewer \<Rightarrow> (string \<times> cell) list list" where
  "getSelectedRowsData v =
     map original (filter (getIsSelected (rowSelection v)) (getRowModel v))"

text \<open>\<open>copyAsCSV\<close>: the texts written to the clipboard (none without a result).\<close>

definition copyAsCSV :: "viewer \<Rightarrow> string list" where
  "copyAsCSV v =
     (case resultProp v of
        None \<Rightarrow> []
      | Some r \<Rightarrow> [copyCSVText r (getSelectedRowsData v)])"


subsection \<open>State changes and the scroll effect\<close>

text \<open>
  What can happen to a mounted viewer: one of its state setters is called with a new
  value, the user scrolls the container, or the parent renders it with another \<open>result\<close>
  (the parent renders \<open>ResultsTableEnhanced\<close> at a fixed position without a \<open>key\<close>, so
  the instance and its \<open>useState\<close> cells live on). Rendering with another result leaves
  the container element in place only when it was and stays mounted; a new container
  starts at offset 0.
\<close>

datatype event =
    SetSorting "(string \<times> bool) option"
  | SetColumnFilters "(string \<times> string) list"
  | SetColumnVisibility "(string \<times> bool) list"
  | SetGlobalFilter string
  | SetRowSelection "(nat \<times> bool) list"
  | Scroll nat
  | SetResult "QueryResult option"

fun applyEvent :: "event \<Rightarrow> viewer \<Rightarrow> viewer" where
  "applyEvent (SetSorting x) v = v\<lparr>sorting := x\<rparr>"
| "applyEvent (SetColumnFilters x) v = v\<lparr>columnFilters := x\<rparr>"
| "applyEvent (SetColumnVisibility x) v = v\<lparr>columnVisibility := x\<rparr>"
| "applyEvent (SetGlobalFilter x) v = v\<lparr>globalFilter := x\<rparr>"
| "applyEvent (SetRowSelection x) v = v\<lparr>rowSelection := x\<rparr>"
| "applyEvent (Scroll y) v = (if containerMounted v then v\<lparr>scrollTop := y\<rparr> else v)"
| "applyEvent (SetResult r) v =
     v\<lparr>resultProp := r,
       scrollTop := (if containerMounted v \<and> containerMounted (v\<lparr>resultProp := r\<rparr>)
                     then scrollTop v else 0)\<rparr>"

text \<open>
  The effect with dependencies \<open>[columnFilters, sorting, globalFilter]\<close>, run after the
  render that follows a state change: when one of the three differs from its value at
  the previous render and the container exists, its \<open>scrollTop\<close> is set to 0. (A setter
  called with an equal value in a new array also re-runs the effect in the source; the
  model runs it on a change of value.)
\<close>

definition scrollEffect :: "viewer \<Rightarrow> viewer \<Rightarrow> viewer" where
  "scrollEffect old new =
     (if (columnFilters new \<noteq> columnFilters old \<or> sorting new \<noteq> sorting old
          \<or> globalFilter new \<noteq> globalFilter old) \<and> containerMounted new
      then new\<lparr>scrollTop := 0\<rparr> else new)"

text \<open>One commit: the state change, the render, the effects.\<close>

definition dispatch :: "event \<Rightarrow> viewer \<Rightarrow> viewer" where
  "dispatch e v = scrollEffect v (applyEvent e v)"

text \<open>
  The "Clear filters" button: \<open>setGlobalFilter('')\<close> and \<open>setColumnFilters([])\<close> in one
  handler, hence one render.
\<close>

definition clearFiltersClick :: "viewer \<Rightarrow> viewer" where
  "clearFiltersClick v =
     scrollEffect v (applyEvent (SetColumnFilters []) (applyEvent (SetGlobalFilter []) v))"

subsection \<open>Virtualization\<close>

text \<open>An item of the virtualizer; \<open>vstart\<close>, \<open>vend\<close> and \<open>vsize\<close> are its \<open>start\<close>, \<open>end\<close> and \<open>size\<close>.\<close>

record virtualItem =
  vindex :: nat
  vstart :: nat
  vend :: nat
  vsize :: nat







text \<open>
  The rows rendered between the spacers: \<open>rows[virtualRow.index]\<close> for each item. An
  index past the end of \<open>rows\<close> reads \<open>undefined\<close>, and \<open>row.id\<close> then throws: \<open>None\<close>.
\<close>

fun renderedRows :: "row list \<Rightarrow> virtualItem list \<Rightarrow> row list option" where
  "renderedRows rs [] = Some []"
| "renderedRows rs (x # xs) =
     (if vindex x < length rs
      then (case renderedRows rs xs of None \<Rightarrow> None | Some ys \<Rightarrow> Some (rs ! vindex x # ys))
      else None)"


section \<open>The serialization rule of the specification\<close>

text \<open>
  The CSV rule in the specification's words: a null cell is the empty field; any other
  cell is its string rendition, wrapped in double quotes with every embedded double quote
  doubled when the rendition contains a comma, a double quote or a newline; a row is its
  fields joined by commas, the header is the column names joined by commas, and the lines
  are joined by newlines.
\<close>

definition csvFieldSpec :: "cell \<Rightarrow> string" where
  "csvFieldSpec v =
     (if v = Null then []
      else if CHR '','' \<in> set (jsString v) \<or> CHR 0x22 \<in> set (jsString v) \<or> CHR 0x0A \<in> set (jsString v)
      then CHR 0x22 # concat (map (\<lambda>c. if c = CHR 0x22 then [c, c] else [c]) (jsString v)) @ [CHR 0x22]
      else jsString v)"

definition csvSpec :: "string list \<Rightarrow> cell list list \<Rightarrow> string" where
  "csvSpec cols rs =
     joinStr [CHR 0x0A] (joinStr '','' cols # map (\<lambda>r. joinStr '','' (map csvFieldSpec r)) rs)"


section \<open>Example data\<close>

text \<open>The result of the specification's examples: columns \<open>id\<close> and \<open>name\<close>, three rows.\<close>

definition exampleResult :: QueryResult where
  "exampleResult =
     \<lparr>columns = [''id'', ''name''],
      rows = [[Num 1, Str ''b''], [Num 2, Str ''a''], [Num 3, Str ''a'']],
      execution_time_ms = 5\<rparr>"

definition otherResult :: QueryResult where
  "otherResult = \<lparr>columns = [''n''], rows = [[Num 7]], execution_time_ms = 2\<rparr>"

text \<open>A viewer on the example with the column filter \<open>name = a\<close>: rows 2 and 3 remain.\<close>

definition exampleFiltered :: viewer where
  "exampleFiltered =
     dispatch (SetColumnFilters [(''name'', ''a'')]) (initViewer (Some exampleResult))"

text \<open>A viewer on the example in which the first row (id 1, identity 0) is selected.\<close>

definition exampleSelected :: viewer where
  "exampleSelected = dispatch (SetRowSelection [(0, True)]) (initViewer (Some exampleResult))"

text \<open>A viewer in which every state cell differs from its initial value.\<close>

definition busyViewer :: viewer where
  "busyViewer =
     \<lparr>resultProp = Some exampleResult, sorting = Some (''name'', False),
      columnFilters = [(''name'', ''a'')], columnVisibility = [(''id'', False)],
      globalFilter = ''a'', rowSelection = [(2, True)], scrollTop = 0\<rparr>"



text \<open>The rows of the result that the derived view shows, in the order of the view.\<close>

definition viewSnapshotRows :: "viewer \<Rightarrow> cell list list" where
  "viewSnapshotRows v =
     (case resultProp v of
        None \<Rightarrow> []
      | Some r \<Rightarrow> map (\<lambda>rw. rows r ! index rw) (getRowModel v))"


section \<open>Strings\<close>

lemma startsWith_iff: "startsWith s sub \<longleftrightarrow> (\<exists>post. s = sub @ post)"
  by (induction s sub rule: startsWith.induct) auto

lemma includes_iff: "includesStr s sub \<longleftrightarrow> (\<exists>pre post. s = pre @ sub @ post)"
proof (induction s)
  case Nil
  then show ?case by auto
next
  case (Cons x xs)
  show ?case
  proof
    assume "includesStr (x # xs) sub"
    then consider "startsWith (x # xs) sub" | "includesStr xs sub" by auto
    then show "\<exists>pre post. x # xs = pre @ sub @ post"
    proof cases
      case 1
      then obtain post where "x # xs = sub @ post" by (auto simp: startsWith_iff)
      then have "x # xs = [] @ sub @ post" by simp
      then show ?thesis by blast
    next
      case 2
      then obtain pre post where "xs = pre @ sub @ post" using Cons.IH by auto
      then have "x # xs = (x # pre) @ sub @ post" by simp
      then show ?thesis by blast
    qed
  next
    assume "\<exists>pre post. x # xs = pre @ sub @ post"
    then obtain pre post where eq: "x # xs = pre @ sub @ post" by blast
    show "includesStr (x # xs) sub"
    proof (cases pre)
      case Nil
      with eq have "startsWith (x # xs) sub" by (auto simp: startsWith_iff)
      then show ?thesis by simp
    next
      case (Cons p ps)
      with eq have "xs = ps @ sub @ post" by simp
      then have "includesStr xs sub" using Cons.IH by blast
      then show ?thesis by simp
    qed
  qed
qed

lemma includes_char: "includesStr s [c] \<longleftrightarrow> c \<in> set s"
  by (auto simp: includes_iff in_set_conv_decomp)

lemma replaceQuotes_concat:
  "replaceQuotes s = concat (map (\<lambda>c. if c = CHR 0x22 then [c, c] else [c]) s)"
  by (induction s) auto


section \<open>The export path follows the serialization rule\<close>

lemma exportCell_spec: "exportCell = csvFieldSpec"
  by (rule ext)
     (simp add: exportCell_def csvFieldSpec_def Let_def includes_char replaceQuotes_concat)

lemma exportCSVText_spec: "exportCSVText r = csvSpec (columns r) (rows r)"
  by (simp add: exportCSVText_def csvSpec_def exportCell_spec)


section \<open>The comparator is a total preorder whose ties are equal values\<close>

lemma compareStr_eq_iff: "compareStr a b = 0 \<longleftrightarrow> a = b"
  by (induction a b rule: compareStr.induct) auto

lemma compareInt_eq_iff: "compareInt a b = 0 \<longleftrightarrow> a = b"
  by (auto simp: compareInt_def)

lemma compareCells_eq_iff: "compareCells a b = 0 \<longleftrightarrow> a = b"
  by (cases a; cases b) (auto simp: compareCells_def compareStr_eq_iff compareInt_eq_iff)

lemma compareStr_Cons_le:
  "compareStr (x # xs) (y # ys) \<le> 0 \<longleftrightarrow>
     (of_char x :: nat) < of_char y \<or> (x = y \<and> compareStr xs ys \<le> 0)"
proof -
  consider "(of_char x :: nat) < of_char y" | "(of_char y :: nat) < of_char x" | "x = y"
    using of_char_eq_iff[of x y, where 'a = nat] by linarith
  then show ?thesis by cases auto
qed

lemma compareStr_total: "compareStr a b \<le> 0 \<or> compareStr b a \<le> 0"
proof (induction a b rule: compareStr.induct)
  case (4 x xs y ys)
  consider "(of_char x :: nat) < of_char y" | "(of_char y :: nat) < of_char x" | "x = y"
    using of_char_eq_iff[of x y, where 'a = nat] by linarith
  then show ?case using 4 unfolding compareStr_Cons_le by cases auto
qed simp_all

lemma compareStr_trans:
  "compareStr a b \<le> 0 \<Longrightarrow> compareStr b c \<le> 0 \<Longrightarrow> compareStr a c \<le> 0"
proof (induction a arbitrary: b c)
  case Nil
  then show ?case by (cases c) simp_all
next
  case (Cons x xs)
  from Cons.prems(1) obtain y ys where b: "b = y # ys" by (cases b) simp_all
  from Cons.prems(2) b obtain z zs where c: "c = z # zs" by (cases c) simp_all
  have xy: "(of_char x :: nat) < of_char y \<or> (x = y \<and> compareStr xs ys \<le> 0)"
    by (rule Cons.prems(1)[unfolded b compareStr_Cons_le])
  have yz: "(of_char y :: nat) < of_char z \<or> (y = z \<and> compareStr ys zs \<le> 0)"
    by (rule Cons.prems(2)[unfolded b c compareStr_Cons_le])
  have "(of_char x :: nat) < of_char z \<or> (x = z \<and> compareStr xs zs \<le> 0)"
    using xy yz Cons.IH[of ys zs] by auto
  then show ?case unfolding c compareStr_Cons_le .
qed

lemma compareInt_total: "compareInt a b \<le> 0 \<or> compareInt b a \<le> 0"
  by (simp add: compareInt_def)

lemma compareInt_trans:
  "compareInt a b \<le> 0 \<Longrightarrow> compareInt b c \<le> 0 \<Longrightarrow> compareInt a c \<le> 0"
  by (simp add: compareInt_def split: if_splits)

lemma compareCells_rank: "compareCells a b \<le> 0 \<Longrightarrow> kindRank a \<le> kindRank b"
  by (simp add: compareCells_def split: if_splits)

lemma compareCells_rank_less: "kindRank a < kindRank b \<Longrightarrow> compareCells a b \<le> 0"
  by (simp add: compareCells_def)

lemma compareCells_same_kind:
  "(compareCells (Bool x) (Bool y) \<le> 0) = (compareInt (of_bool x) (of_bool y) \<le> 0)"
  "(compareCells (Num i) (Num j) \<le> 0) = (compareInt i j \<le> 0)"
  "(compareCells (Str s) (Str t) \<le> 0) = (compareStr s t \<le> 0)"
  "(compareCells (Obj s) (Obj t) \<le> 0) = (compareStr s t \<le> 0)"
  "compareCells Null Null \<le> 0"
  "compareCells Undefined Undefined \<le> 0"
  by (simp_all add: compareCells_def)

lemma compareCells_total: "compareCells a b \<le> 0 \<or> compareCells b a \<le> 0"
proof -
  consider "kindRank a < kindRank b" | "kindRank b < kindRank a" | "kindRank a = kindRank b"
    by linarith
  then show ?thesis
  proof cases
    case 1
    then show ?thesis by (simp add: compareCells_rank_less)
  next
    case 2
    then show ?thesis by (simp add: compareCells_rank_less)
  next
    case 3
    then show ?thesis
    proof (cases a)
      case (Bool x)
      with 3 obtain y where "b = Bool y" by (cases b) simp_all
      with Bool show ?thesis
        using compareInt_total[of "of_bool x" "of_bool y"] by (simp add: compareCells_same_kind)
    next
      case (Num x)
      with 3 obtain y where "b = Num y" by (cases b) simp_all
      with Num show ?thesis
        using compareInt_total[of x y] by (simp add: compareCells_same_kind)
    next
      case (Str x)
      with 3 obtain y where "b = Str y" by (cases b) simp_all
      with Str show ?thesis
        using compareStr_total[of x y] by (simp add: compareCells_same_kind)
    next
      case (Obj x)
      with 3 obtain y where "b = Obj y" by (cases b) simp_all
      with Obj show ?thesis
        using compareStr_total[of x y] by (simp add: compareCells_same_kind)
    next
      case Null
      with 3 have "b = Null" by (cases b) simp_all
      with Null show ?thesis by (simp add: compareCells_same_kind)
    next
      case Undefined
      with 3 have "b = Undefined" by (cases b) simp_all
      with Undefined show ?thesis by (simp add: compareCells_same_kind)
    qed
  qed
qed

lemma compareCells_trans:
  assumes ab: "compareCells a b \<le> 0" and bc: "compareCells b c \<le> 0"
  shows "compareCells a c \<le> 0"
proof (cases "kindRank a < kindRank c")
  case True
  then show ?thesis by (rule compareCells_rank_less)
next
  case False
  with compareCells_rank[OF ab] compareCells_rank[OF bc]
  have eq: "kindRank a = kindRank b" "kindRank c = kindRank b" by auto
  show ?thesis
  proof (cases b)
    case Undefined
    have "a = Undefined" using eq Undefined by (cases a) simp_all
    moreover have "c = Undefined" using eq Undefined by (cases c) simp_all
    ultimately show ?thesis by (simp add: compareCells_same_kind)
  next
    case Null
    have "a = Null" using eq Null by (cases a) simp_all
    moreover have "c = Null" using eq Null by (cases c) simp_all
    ultimately show ?thesis by (simp add: compareCells_same_kind)
  next
    case (Bool y)
    obtain x where "a = Bool x" using eq Bool by (cases a) simp_all
    moreover obtain z where "c = Bool z" using eq Bool by (cases c) simp_all
    ultimately show ?thesis using Bool ab bc
        compareInt_trans[of "of_bool x" "of_bool y" "of_bool z"]
      by (simp add: compareCells_same_kind)
  next
    case (Num y)
    obtain x where "a = Num x" using eq Num by (cases a) simp_all
    moreover obtain z where "c = Num z" using eq Num by (cases c) simp_all
    ultimately show ?thesis using Num ab bc
        compareInt_trans[of x y z] by (simp add: compareCells_same_kind)
  next
    case (Str y)
    obtain x where "a = Str x" using eq Str by (cases a) simp_all
    moreover obtain z where "c = Str z" using eq Str by (cases c) simp_all
    ultimately show ?thesis using Str ab bc
        compareStr_trans[of x y z] by (simp add: compareCells_same_kind)
  next
    case (Obj y)
    obtain x where "a = Obj x" using eq Obj by (cases a) simp_all
    moreover obtain z where "c = Obj z" using eq Obj by (cases c) simp_all
    ultimately show ?thesis using Obj ab bc
        compareStr_trans[of x y z] by (simp add: compareCells_same_kind)
  qed
qed

lemma rowLe_total: "rowLe col desc a b \<or> rowLe col desc b a"
  using compareCells_total by (auto simp: rowLe_def)

lemma rowLe_trans: "rowLe col desc a b \<Longrightarrow> rowLe col desc b c \<Longrightarrow> rowLe col desc a c"
  using compareCells_trans by (auto simp: rowLe_def split: if_splits)

lemma rowLe_refl_key: "getValue a col = getValue b col \<Longrightarrow> rowLe col desc a b"
  by (simp add: rowLe_def compareCells_eq_iff[THEN iffD2])


section \<open>The sort orders the rows, keeps them all, and keeps ties in place\<close>

lemma set_insertRow: "set (insertRow le x rs) = insert x (set rs)"
  by (induction rs) auto

lemma set_sortRows: "set (sortRows col desc rs) = set rs"
  unfolding sortRows_def by (induction rs) (auto simp: set_insertRow)

lemma length_insertRow: "length (insertRow le x rs) = Suc (length rs)"
  by (induction rs) auto

lemma length_sortRows: "length (sortRows col desc rs) = length rs"
  unfolding sortRows_def by (induction rs) (auto simp: length_insertRow)

lemma sorted_insertRow:
  "sorted_wrt (rowLe col desc) rs \<Longrightarrow>
   sorted_wrt (rowLe col desc) (insertRow (rowLe col desc) x rs)"
proof (induction rs)
  case Nil
  then show ?case by simp
next
  case (Cons y ys)
  show ?case
  proof (cases "rowLe col desc x y")
    case True
    then have "\<forall>z\<in>set ys. rowLe col desc x z"
      using Cons.prems rowLe_trans by auto
    with True Cons.prems show ?thesis by simp
  next
    case False
    then have "rowLe col desc y x" using rowLe_total by blast
    with False Cons show ?thesis by (auto simp: set_insertRow)
  qed
qed

lemma sorted_sortRows: "sorted_wrt (rowLe col desc) (sortRows col desc rs)"
  unfolding sortRows_def by (induction rs) (auto simp: sorted_insertRow)

lemma filter_insertRow:
  "filter (\<lambda>rw. getValue rw col = k) (insertRow (rowLe col desc) x rs) =
   filter (\<lambda>rw. getValue rw col = k) (x # rs)"
proof (induction rs)
  case Nil
  then show ?case by simp
next
  case (Cons y ys)
  show ?case
  proof (cases "rowLe col desc x y")
    case True
    then show ?thesis by simp
  next
    case False
    then have "getValue x col \<noteq> getValue y col" using rowLe_refl_key by blast
    with False Cons.IH show ?thesis by auto
  qed
qed

lemma filter_sortRows:
  "filter (\<lambda>rw. getValue rw col = k) (sortRows col desc rs) =
   filter (\<lambda>rw. getValue rw col = k) rs"
  unfolding sortRows_def
proof (induction rs)
  case Nil
  then show ?case by simp
next
  case (Cons x xs)
  have "filter (\<lambda>rw. getValue rw col = k) (foldr (insertRow (rowLe col desc)) (x # xs) []) =
        filter (\<lambda>rw. getValue rw col = k) (x # foldr (insertRow (rowLe col desc)) xs [])"
    by (simp add: filter_insertRow del: filter.simps)
  then show ?case using Cons.IH by simp
qed


section \<open>The derived view\<close>

lemma filteredRows_rowSelection [simp]:
  "filteredRows (v\<lparr>rowSelection := x\<rparr>) = filteredRows v"
  by (simp add: filteredRows_def split: option.splits)

lemma getRowModel_rowSelection [simp]:
  "getRowModel (v\<lparr>rowSelection := x\<rparr>) = getRowModel v"
  by (simp add: getRowModel_def split: option.splits)

lemma map_index_coreRows: "map index (coreRows d) = [0..<length d]"
  by (simp add: coreRows_def enumerate_eq_zip o_def split_def)

lemma coreRows_nth:
  "i < length d \<Longrightarrow> coreRows d ! i = \<lparr>index = i, original = d ! i\<rparr>"
  by (simp add: coreRows_def nth_enumerate_eq)

lemma length_coreRows: "length (coreRows d) = length d"
  by (simp add: coreRows_def)

lemma coreRows_member:
  assumes "i < length d"
  shows "\<lparr>index = i, original = d ! i\<rparr> \<in> set (coreRows d)"
proof -
  have "coreRows d ! i \<in> set (coreRows d)"
    using assms by (simp add: length_coreRows)
  then show ?thesis using assms by (simp add: coreRows_nth)
qed

lemma filteredRows_no_filter:
  assumes "columnFilters v = []" "globalFilter v = []"
  shows "filteredRows v = coreRows (data (resultProp v))"
  using assms
  by (simp add: filteredRows_def passesColumnFilters_def passesGlobalFilter_def data_def
        coreRows_def split: option.splits)

lemma set_getRowModel: "set (getRowModel v) = set (filteredRows v)"
  by (simp add: getRowModel_def set_sortRows split: option.splits prod.splits)

lemma length_getRowModel: "length (getRowModel v) = length (filteredRows v)"
  by (simp add: getRowModel_def length_sortRows split: option.splits prod.splits)

lemma length_filteredRows:
  "length (filteredRows v) \<le> length (data (resultProp v))"
proof (cases "resultProp v")
  case None
  then show ?thesis by (simp add: filteredRows_def)
next
  case (Some r)
  have "length (filteredRows v) \<le> length (coreRows (data (resultProp v)))"
    unfolding filteredRows_def Some option.case by (rule length_filter_le)
  then show ?thesis by (simp add: length_coreRows)
qed

lemma viewSnapshotRows_unfiltered:
  assumes "resultProp v = Some r" "columnFilters v = []" "globalFilter v = []" "sorting v = None"
  shows "viewSnapshotRows v = rows r"
proof -
  have "getRowModel v = coreRows (map (rowObject (columns r)) (rows r))"
    using assms by (simp add: getRowModel_def filteredRows_no_filter data_def)
  then have "viewSnapshotRows v =
      map (\<lambda>i. rows r ! i) (map index (coreRows (map (rowObject (columns r)) (rows r))))"
    using assms(1) by (simp add: viewSnapshotRows_def o_def)
  then show ?thesis by (simp add: map_index_coreRows map_nth)
qed

lemma renderedRows_subset: "renderedRows rs vrs = Some rr \<Longrightarrow> set rr \<subseteq> set rs"
  by (induction vrs arbitrary: rr) (auto split: if_splits option.splits)


section \<open>Selection\<close>

lemma map_of_selectAllVisible:
  "map_of (selectAllVisible ids sel) k = (if k \<in> set ids then Some True else map_of sel k)"
  unfolding selectAllVisible_def
  by (induction ids arbitrary: sel) (auto simp: update_conv')

lemma selectedIds_toggle_all:
  "selectedIds (toggleAllRowsSelected True v) = selectedIds v \<union> viewIds v"
  by (auto simp: selectedIds_def toggleAllRowsSelected_def viewIds_def map_of_selectAllVisible)

lemma filter_all_selected:
  "filter (getIsSelected (selectAllVisible (map index rs) sel)) rs = rs"
  by (rule filter_True) (simp add: getIsSelected_def map_of_selectAllVisible)

lemma aggregate_toggle_all:
  "aggregateState (toggleAllRowsSelected True v) =
     (if getRowModel v = [] then NoneSelected else AllSelected)"
  by (simp add: aggregateState_def toggleAllRowsSelected_def Let_def filter_all_selected)

lemma handleKeyDown_select_all:
  assumes "metaKey e \<or> ctrlKey e" "key e = ''a''" "containerMounted v"
  shows "handleKeyDown e True v = toggleAllRowsSelected True v"
  using assms by (simp add: handleKeyDown_def Let_def)

lemma clearFiltersClick_fields:
  "columnFilters (clearFiltersClick v) = [] \<and> globalFilter (clearFiltersClick v) = []
   \<and> rowSelection (clearFiltersClick v) = rowSelection v
   \<and> resultProp (clearFiltersClick v) = resultProp v
   \<and> sorting (clearFiltersClick v) = sorting v"
  by (simp add: clearFiltersClick_def scrollEffect_def)

lemma dispatch_filter_fields:
  assumes "e = SetColumnFilters cf \<or> e = SetGlobalFilter g"
  shows "rowSelection (dispatch e v) = rowSelection v \<and> resultProp (dispatch e v) = resultProp v"
  using assms by (auto simp: dispatch_def scrollEffect_def)


section \<open>The window of rendered rows\<close>









section \<open>Claims\<close>

subsection \<open>C1: the CSV escaping rule on both paths\<close>

text \<open>
  C1. Every cell is serialized by the escaping rule (null as the empty field, otherwise
  the string rendition, quoted with doubled quotes when it holds a comma, a double quote
  or a newline) on the Export path and on the Copy path. The Export path does so
  (\<open>exportCSVText_spec\<close> above). The Copy path does not: \<open>copyAsCSV\<close> quotes only
  strings that hold a comma and never doubles a quote. For the specification's own cell
  \<open>He said "hi"\<close> it emits the text unquoted where the rule and the Export path give
  \<open>"He said ""hi"""\<close>; for the cell \<open>a,"b\<close> it emits \<open>"a,"b"\<close> where the rule gives
  \<open>"a,""b"\<close>.
\<close>

theorem copy_csv_escaping_divergence:
  \<open>copyCSVText \<lparr>columns = [''msg''], rows = [[Str ''He said "hi"'']], execution_time_ms = 0\<rparr>
       [rowObject [''msg''] [Str ''He said "hi"'']]
     = ''msg'' @ [CHR 0x0A] @ ''He said "hi"''
   \<and> csvSpec [''msg''] [[Str ''He said "hi"'']] = ''msg'' @ [CHR 0x0A] @ ''"He said ""hi"""''
   \<and> exportCSVText \<lparr>columns = [''msg''], rows = [[Str ''He said "hi"'']], execution_time_ms = 0\<rparr>
     = ''msg'' @ [CHR 0x0A] @ ''"He said ""hi"""''
   \<and> copyCSVText \<lparr>columns = [''msg''], rows = [[Str ''a,"b'']], execution_time_ms = 0\<rparr>
       [rowObject [''msg''] [Str ''a,"b'']]
     = ''msg'' @ [CHR 0x0A] @ ''"a,"b"''
   \<and> csvSpec [''msg''] [[Str ''a,"b'']] = ''msg'' @ [CHR 0x0A] @ ''"a,""b"''\<close>
  by code_simp


subsection \<open>C2: what Export serializes\<close>

text \<open>
  C2, as amended. \<open>exportToCSV\<close> and \<open>exportToJSON\<close> serialize exactly the rows of the
  result snapshot, all of them and in snapshot order, whatever the filters, the sort and
  the selection of the viewer (the functions read the result only): the CSV download
  holds the serialization rule applied to \<open>rows r\<close>, the JSON download holds the row
  objects of \<open>rows r\<close>. These are the rows of the derived view when no filter and no
  sort is active.
\<close>

theorem export_serializes_whole_snapshot:
  assumes "result h = Some r"
  shows "exportToCSV today h =
           (h, [\<lparr>mime = ''text/csv;charset=utf-8;'',
                 filename = ''query_results_'' @ today @ ''.csv'',
                 content = csvSpec (columns r) (rows r)\<rparr>])
       \<and> exportToJSON stringify today h =
           (h, [\<lparr>mime = ''application/json'',
                 filename = ''query_results_'' @ today @ ''.json'',
                 content = stringify (map (rowObject (columns r)) (rows r))\<rparr>])
       \<and> (\<forall>v. resultProp v = Some r \<and> columnFilters v = [] \<and> globalFilter v = []
               \<and> sorting v = None
              \<longrightarrow> viewSnapshotRows v = rows r)"
  using assms
  by (simp add: exportToCSV_def exportToJSON_def exportCSVText_spec viewSnapshotRows_unfiltered)

theorem export_serializes_whole_snapshot_witness:
  "result \<lparr>query = [], result = Some exampleResult, loading = False\<rparr> = Some exampleResult
   \<and> exportToCSV ''2026-01-01'' \<lparr>query = [], result = Some exampleResult, loading = False\<rparr> =
       (\<lparr>query = [], result = Some exampleResult, loading = False\<rparr>,
        [\<lparr>mime = ''text/csv;charset=utf-8;'',
          filename = ''query_results_2026-01-01.csv'',
          content = ''id,name'' @ [CHR 0x0A] @ ''1,b'' @ [CHR 0x0A] @ ''2,a'' @ [CHR 0x0A] @ ''3,a''\<rparr>])"
proof -
  have r: "result \<lparr>query = [], result = Some exampleResult, loading = False\<rparr> = Some exampleResult"
    by simp
  have c: "csvSpec (columns exampleResult) (rows exampleResult)
      = ''id,name'' @ [CHR 0x0A] @ ''1,b'' @ [CHR 0x0A] @ ''2,a'' @ [CHR 0x0A] @ ''3,a''"
    by code_simp
  show ?thesis
    using export_serializes_whole_snapshot[OF r, of "''2026-01-01''"] c by simp
qed

text \<open>
  C2 as stated fails: with the column filter \<open>name = a\<close> the derived view holds the two
  rows \<open>(2, a)\<close> and \<open>(3, a)\<close>, and the export still holds all three rows.
\<close>

theorem export_ignores_view_counterexample:
  "resultProp exampleFiltered = Some exampleResult
   \<and> viewSnapshotRows exampleFiltered = [[Num 2, Str ''a''], [Num 3, Str ''a'']]
   \<and> map content
        (snd (exportToCSV ''2026-01-01'' \<lparr>query = [], result = Some exampleResult, loading = False\<rparr>))
       = [''id,name'' @ [CHR 0x0A] @ ''1,b'' @ [CHR 0x0A] @ ''2,a'' @ [CHR 0x0A] @ ''3,a'']
   \<and> csvSpec (columns exampleResult) (viewSnapshotRows exampleFiltered)
       = ''id,name'' @ [CHR 0x0A] @ ''2,a'' @ [CHR 0x0A] @ ''3,a''
   \<and> map content
        (snd (exportToCSV ''2026-01-01'' \<lparr>query = [], result = Some exampleResult, loading = False\<rparr>))
       \<noteq> [csvSpec (columns exampleResult) (viewSnapshotRows exampleFiltered)]"
  by code_simp


subsection \<open>C3: the viewer's state when the snapshot changes\<close>

text \<open>
  C3, as amended. The filter, sort, selection and visibility states are empty when a
  viewer instance is created, and a change of the snapshot (the viewer rendered with
  another \<open>result\<close>) leaves all four as they were: they change only through their own
  setters.
\<close>

theorem state_survives_snapshot_change:
  "sorting (initViewer r) = None \<and> columnFilters (initViewer r) = []
   \<and> globalFilter (initViewer r) = [] \<and> rowSelection (initViewer r) = []
   \<and> columnVisibility (initViewer r) = []
   \<and> sorting (dispatch (SetResult r') v) = sorting v
   \<and> columnFilters (dispatch (SetResult r') v) = columnFilters v
   \<and> globalFilter (dispatch (SetResult r') v) = globalFilter v
   \<and> rowSelection (dispatch (SetResult r') v) = rowSelection v
   \<and> columnVisibility (dispatch (SetResult r') v) = columnVisibility v
   \<and> resultProp (dispatch (SetResult r') v) = r'"
  by (simp add: initViewer_def dispatch_def scrollEffect_def)

theorem state_survives_snapshot_change_witness:
  "rowSelection (dispatch (SetResult (Some otherResult)) busyViewer) = [(2, True)]
   \<and> columnFilters (dispatch (SetResult (Some otherResult)) busyViewer) = [(''name'', ''a'')]
   \<and> resultProp (dispatch (SetResult (Some otherResult)) busyViewer) = Some otherResult"
  using state_survives_snapshot_change[of None "Some otherResult" busyViewer]
  by (simp add: busyViewer_def)

text \<open>
  C3 as stated fails: a viewer with a sort, a filter, a global filter, a hidden column
  and a selected row keeps every one of them when another snapshot arrives.
\<close>

theorem snapshot_change_counterexample:
  "resultProp (dispatch (SetResult (Some otherResult)) busyViewer) = Some otherResult
   \<and> Some otherResult \<noteq> resultProp busyViewer
   \<and> rowSelection (dispatch (SetResult (Some otherResult)) busyViewer) = [(2, True)]
   \<and> selectedRowCount (dispatch (SetResult (Some otherResult)) busyViewer) = 1
   \<and> columnFilters (dispatch (SetResult (Some otherResult)) busyViewer) \<noteq> []
   \<and> sorting (dispatch (SetResult (Some otherResult)) busyViewer) \<noteq> None
   \<and> columnVisibility (dispatch (SetResult (Some otherResult)) busyViewer) \<noteq> []
   \<and> globalFilter (dispatch (SetResult (Some otherResult)) busyViewer) \<noteq> []"
  by code_simp


subsection \<open>C4: select-all\<close>

text \<open>
  C4. The select-all gesture (Cmd/Ctrl+A with the grid focused; the header checkbox and
  the Select All button call the same \<open>toggleAllRowsSelected(true)\<close>) selects the
  identities of the derived view and no others: afterwards the selected identities are
  those selected before together with those of the view, hence exactly those of the
  view when nothing outside the view was selected; the view is unchanged and, if
  non-empty, the aggregate state is "all". On the example with the filter showing 2 of
  3 rows, select-all from the empty selection selects exactly the identities 1 and 2,
  the count is 2, the aggregate state is "all", and identity 0 stays unselected.
\<close>

theorem select_all_selects_view:
  assumes "metaKey e \<or> ctrlKey e" and "key e = ''a''" and "containerMounted v"
  shows "handleKeyDown e True v = toggleAllRowsSelected True v
       \<and> selectedIds (handleKeyDown e True v) = selectedIds v \<union> viewIds v
       \<and> (selectedIds v \<subseteq> viewIds v \<longrightarrow> selectedIds (handleKeyDown e True v) = viewIds v)
       \<and> getRowModel (handleKeyDown e True v) = getRowModel v
       \<and> aggregateState (handleKeyDown e True v)
           = (if getRowModel v = [] then NoneSelected else AllSelected)
       \<and> length (rows exampleResult) = 3
       \<and> map index (getRowModel exampleFiltered) = [1, 2]
       \<and> rowSelection exampleFiltered = []
       \<and> rowSelection (toggleAllRowsSelected True exampleFiltered) = [(1, True), (2, True)]
       \<and> selectedRowCount (toggleAllRowsSelected True exampleFiltered) = 2
       \<and> aggregateState (toggleAllRowsSelected True exampleFiltered) = AllSelected
       \<and> map_of (rowSelection (toggleAllRowsSelected True exampleFiltered)) 0 = None"
proof -
  have k: "handleKeyDown e True v = toggleAllRowsSelected True v"
    using assms by (rule handleKeyDown_select_all)
  have s: "selectedIds (toggleAllRowsSelected True v) = selectedIds v \<union> viewIds v"
    by (rule selectedIds_toggle_all)
  have m: "getRowModel (toggleAllRowsSelected True v) = getRowModel v"
    by (simp add: toggleAllRowsSelected_def)
  have a: "aggregateState (toggleAllRowsSelected True v)
      = (if getRowModel v = [] then NoneSelected else AllSelected)"
    by (rule aggregate_toggle_all)
  have ex: "length (rows exampleResult) = 3"
    "map index (getRowModel exampleFiltered) = [1, 2]"
    "rowSelection exampleFiltered = []"
    "rowSelection (toggleAllRowsSelected True exampleFiltered) = [(1, True), (2, True)]"
    "selectedRowCount (toggleAllRowsSelected True exampleFiltered) = 2"
    "aggregateState (toggleAllRowsSelected True exampleFiltered) = AllSelected"
    "map_of (rowSelection (toggleAllRowsSelected True exampleFiltered)) 0 = None"
    by code_simp+
  from s have s': "selectedIds v \<subseteq> viewIds v \<longrightarrow>
      selectedIds (toggleAllRowsSelected True v) = viewIds v" by blast
  show ?thesis unfolding k using s s' m a ex by blast
qed

theorem select_all_selects_view_witness:
  "(metaKey \<lparr>metaKey = True, ctrlKey = False, key = ''a''\<rparr>
      \<or> ctrlKey \<lparr>metaKey = True, ctrlKey = False, key = ''a''\<rparr>)
   \<and> key \<lparr>metaKey = True, ctrlKey = False, key = ''a''\<rparr> = ''a''
   \<and> containerMounted exampleFiltered
   \<and> selectedIds (handleKeyDown \<lparr>metaKey = True, ctrlKey = False, key = ''a''\<rparr> True exampleFiltered)
       = selectedIds exampleFiltered \<union> viewIds exampleFiltered
   \<and> aggregateState (handleKeyDown \<lparr>metaKey = True, ctrlKey = False, key = ''a''\<rparr> True exampleFiltered)
       = AllSelected"
proof -
  let ?e = "\<lparr>metaKey = True, ctrlKey = False, key = ''a''\<rparr>"
  have h1: "metaKey ?e \<or> ctrlKey ?e" by simp
  have h2: "key ?e = ''a''" by simp
  have h3: "containerMounted exampleFiltered" by code_simp
  have ne: "getRowModel exampleFiltered \<noteq> []" by code_simp
  note t = select_all_selects_view[OF h1 h2 h3]
  have s: "selectedIds (handleKeyDown ?e True exampleFiltered)
      = selectedIds exampleFiltered \<union> viewIds exampleFiltered"
    using t by blast
  have "aggregateState (handleKeyDown ?e True exampleFiltered)
      = (if getRowModel exampleFiltered = [] then NoneSelected else AllSelected)"
    using t by blast
  then have a: "aggregateState (handleKeyDown ?e True exampleFiltered) = AllSelected"
    using ne by simp
  show ?thesis using h1 h2 h3 s a by blast
qed


subsection \<open>C5: the column filter predicate\<close>

text \<open>
  C5. The column filter predicate excludes a row exactly when the row's value for the
  column is null or undefined, or the lower-cased string rendition of the value does not
  contain the lower-cased filter text as a substring.
\<close>

theorem filterFn_excludes_iff:
  "\<not> filterFn rw col txt \<longleftrightarrow>
     (getValue rw col = Null \<or> getValue rw col = Undefined
      \<or> \<not> (\<exists>pre post. toLowerCase (jsString (getValue rw col)) = pre @ toLowerCase txt @ post))"
  by (auto simp: filterFn_def Let_def includes_iff)

theorem filterFn_excludes_iff_witness:
  "filterFn \<lparr>index = 0, original = [(''name'', Str ''Alice'')]\<rparr> ''name'' ''LIC''
   \<and> (\<exists>pre post. toLowerCase (jsString (getValue \<lparr>index = 0, original = [(''name'', Str ''Alice'')]\<rparr> ''name''))
         = pre @ toLowerCase ''LIC'' @ post)
   \<and> \<not> filterFn \<lparr>index = 0, original = [(''name'', Null)]\<rparr> ''name'' ''''
   \<and> \<not> filterFn \<lparr>index = 0, original = [(''name'', Str ''Alice'')]\<rparr> ''name'' ''bob''"
proof -
  have a: "filterFn \<lparr>index = 0, original = [(''name'', Str ''Alice'')]\<rparr> ''name'' ''LIC''"
    by code_simp
  have b: "getValue \<lparr>index = 0, original = [(''name'', Null)]\<rparr> ''name'' = Null"
    by code_simp
  have c: "\<not> filterFn \<lparr>index = 0, original = [(''name'', Str ''Alice'')]\<rparr> ''name'' ''bob''"
    by code_simp
  show ?thesis
    using a c
      filterFn_excludes_iff[of "\<lparr>index = 0, original = [(''name'', Str ''Alice'')]\<rparr>" "''name''" "''LIC''"]
      filterFn_excludes_iff[of "\<lparr>index = 0, original = [(''name'', Null)]\<rparr>" "''name''" "''''"] b
    by blast
qed


subsection \<open>C6: the sort is stable\<close>

text \<open>
  C6. Sorting is stable: for every row sequence, column and direction, the rows whose
  sort key compares equal to any given value appear after the sort in the same relative
  order as before it. On the rows \<open>(1, b)\<close>, \<open>(2, a)\<close>, \<open>(3, a)\<close>, sorting ascending by
  \<open>name\<close> yields \<open>(2, a)\<close>, \<open>(3, a)\<close>, \<open>(1, b)\<close>.
\<close>

theorem sort_is_stable:
  "filter (\<lambda>rw. compareCells (getValue rw col) k = 0) (sortRows col desc rs)
     = filter (\<lambda>rw. compareCells (getValue rw col) k = 0) rs
   \<and> map (\<lambda>rw. (getValue rw ''id'', getValue rw ''name''))
       (getRowModel ((initViewer (Some exampleResult))\<lparr>sorting := Some (''name'', False)\<rparr>))
     = [(Num 2, Str ''a''), (Num 3, Str ''a''), (Num 1, Str ''b'')]"
proof
  show "filter (\<lambda>rw. compareCells (getValue rw col) k = 0) (sortRows col desc rs)
     = filter (\<lambda>rw. compareCells (getValue rw col) k = 0) rs"
    by (simp add: compareCells_eq_iff filter_sortRows)
  show "map (\<lambda>rw. (getValue rw ''id'', getValue rw ''name''))
       (getRowModel ((initViewer (Some exampleResult))\<lparr>sorting := Some (''name'', False)\<rparr>))
     = [(Num 2, Str ''a''), (Num 3, Str ''a''), (Num 1, Str ''b'')]"
    by code_simp
qed

theorem sort_is_stable_witness:
  "map index (filter (\<lambda>rw. compareCells (getValue rw ''name'') (Str ''a'') = 0)
       (sortRows ''name'' True (coreRows (data (Some exampleResult))))) = [1, 2]
   \<and> map index (sortRows ''name'' True (coreRows (data (Some exampleResult)))) = [0, 1, 2]
   \<and> map index (sortRows ''name'' False (coreRows (data (Some exampleResult)))) = [1, 2, 0]"
proof -
  have a: "map index (filter (\<lambda>rw. compareCells (getValue rw ''name'') (Str ''a'') = 0)
       (coreRows (data (Some exampleResult)))) = [1, 2]"
    by code_simp
  have b: "map index (sortRows ''name'' True (coreRows (data (Some exampleResult)))) = [0, 1, 2]"
    "map index (sortRows ''name'' False (coreRows (data (Some exampleResult)))) = [1, 2, 0]"
    by code_simp+
  show ?thesis
    using sort_is_stable[of "''name''" "Str ''a''" True "coreRows (data (Some exampleResult))"] a b
    by simp
qed


subsection \<open>C7: a selection hidden by a filter\<close>

text \<open>
  C7. Applying a filter (a column filter or the global filter) that hides a selected row
  leaves the selection state unchanged: the row's identity stays selected, the selected
  count shown in the header is what it was, no window of rendered rows contains the row
  while it is hidden, and once the filters are cleared the row's object is among the
  selected rows that copy-selected serializes, and its line is among the CSV lines.
\<close>

theorem hidden_selection_is_retained:
  assumes res: "resultProp v = Some r"
    and i: "i < length (rows r)"
    and sel: "map_of (rowSelection v) i = Some True"
    and e: "e = SetColumnFilters cf \<or> e = SetGlobalFilter g"
    and hidden: "i \<notin> viewIds (dispatch e v)"
  shows "rowSelection (dispatch e v) = rowSelection v
     \<and> i \<in> selectedIds (dispatch e v)
     \<and> selectedRowCount (dispatch e v) = selectedRowCount v
     \<and> (\<forall>vrs rr. renderedRows (getRowModel (dispatch e v)) vrs = Some rr
            \<longrightarrow> i \<notin> index ` set rr)
     \<and> rowObject (columns r) (rows r ! i)
         \<in> set (getSelectedRowsData (clearFiltersClick (dispatch e v)))
     \<and> joinCells '',''
           (map (\<lambda>col. copyCell (getProp (rowObject (columns r) (rows r ! i)) col)) (columns r))
         \<in> set (copyCSVLines r (getSelectedRowsData (clearFiltersClick (dispatch e v))))"
proof -
  let ?v' = "dispatch e v"
  let ?c = "clearFiltersClick ?v'"
  let ?obj = "rowObject (columns r) (rows r ! i)"
  have keep: "rowSelection ?v' = rowSelection v" and res': "resultProp ?v' = Some r"
    using dispatch_filter_fields[OF e, of v] res by simp_all
  have in_sel: "i \<in> selectedIds ?v'"
    using sel keep by (simp add: selectedIds_def)
  have count: "selectedRowCount ?v' = selectedRowCount v"
    using keep by (simp add: selectedRowCount_def)
  have not_rendered:
    "\<forall>vrs rr. renderedRows (getRowModel ?v') vrs = Some rr \<longrightarrow> i \<notin> index ` set rr"
  proof (intro allI impI)
    fix vrs rr
    assume "renderedRows (getRowModel ?v') vrs = Some rr"
    then have "set rr \<subseteq> set (getRowModel ?v')" by (rule renderedRows_subset)
    then have "index ` set rr \<subseteq> viewIds ?v'" by (auto simp: viewIds_def)
    with hidden show "i \<notin> index ` set rr" by blast
  qed
  have cf: "columnFilters ?c = []" "globalFilter ?c = []" "rowSelection ?c = rowSelection v"
    "resultProp ?c = Some r"
    using clearFiltersClick_fields[of ?v'] keep res' by simp_all
  have d: "data (resultProp ?c) = map (rowObject (columns r)) (rows r)"
    using cf by (simp add: data_def)
  have "\<lparr>index = i, original = ?obj\<rparr> \<in> set (coreRows (data (resultProp ?c)))"
    using coreRows_member[of i "data (resultProp ?c)"] i d by simp
  then have inview: "\<lparr>index = i, original = ?obj\<rparr> \<in> set (getRowModel ?c)"
    using cf by (simp add: set_getRowModel filteredRows_no_filter)
  have "getIsSelected (rowSelection ?c) \<lparr>index = i, original = ?obj\<rparr>"
    using sel cf by (simp add: getIsSelected_def)
  with inview have "\<lparr>index = i, original = ?obj\<rparr>
      \<in> set (filter (getIsSelected (rowSelection ?c)) (getRowModel ?c))" by simp
  then have "original \<lparr>index = i, original = ?obj\<rparr> \<in> set (getSelectedRowsData ?c)"
    unfolding getSelectedRowsData_def set_map by (rule imageI)
  then have data_in: "?obj \<in> set (getSelectedRowsData ?c)" by simp
  then have line_in:
    "joinCells '','' (map (\<lambda>col. copyCell (getProp ?obj col)) (columns r))
       \<in> set (copyCSVLines r (getSelectedRowsData ?c))"
    by (auto simp: copyCSVLines_def)
  show ?thesis using keep in_sel count not_rendered data_in line_in by blast
qed

theorem hidden_selection_is_retained_witness:
  "resultProp exampleSelected = Some exampleResult
   \<and> 0 < length (rows exampleResult)
   \<and> map_of (rowSelection exampleSelected) 0 = Some True
   \<and> 0 \<notin> viewIds (dispatch (SetColumnFilters [(''name'', ''a'')]) exampleSelected)
   \<and> selectedRowCount (dispatch (SetColumnFilters [(''name'', ''a'')]) exampleSelected) = 1
   \<and> getSelectedRowsData (dispatch (SetColumnFilters [(''name'', ''a'')]) exampleSelected) = []
   \<and> rowObject (columns exampleResult) (rows exampleResult ! 0)
       \<in> set (getSelectedRowsData
                (clearFiltersClick (dispatch (SetColumnFilters [(''name'', ''a'')]) exampleSelected)))
   \<and> copyAsCSV (clearFiltersClick (dispatch (SetColumnFilters [(''name'', ''a'')]) exampleSelected))
       = [''id,name'' @ [CHR 0x0A] @ ''1,b'']"
proof -
  let ?e = "SetColumnFilters [(''name'', ''a'')]"
  have h1: "resultProp exampleSelected = Some exampleResult" by code_simp
  have h2: "0 < length (rows exampleResult)" by code_simp
  have h3: "map_of (rowSelection exampleSelected) 0 = Some True" by code_simp
  have h4: "?e = SetColumnFilters [(''name'', ''a'')] \<or> ?e = SetGlobalFilter []" by simp
  have h5: "0 \<notin> viewIds (dispatch ?e exampleSelected)" by code_simp
  have n: "selectedRowCount exampleSelected = 1" by code_simp
  have g: "getSelectedRowsData (dispatch ?e exampleSelected) = []" by code_simp
  have c: "copyAsCSV (clearFiltersClick (dispatch ?e exampleSelected))
      = [''id,name'' @ [CHR 0x0A] @ ''1,b'']" by code_simp
  show ?thesis
    using hidden_selection_is_retained[OF h1 h2 h3 h4 h5] h1 h2 h3 h5 n g c by simp
qed


subsection \<open>C8: when the spacers preserve the total height\<close>






subsection \<open>C9: the scroll position after a filter or sort change\<close>

text \<open>
  C9. After every change of the column filters, of the global filter text or of the
  sort state of a viewer whose table container is mounted, the commit that follows (the
  render and its effects) leaves the scroll offset at 0; this holds for each of the
  three kinds of change and every new value, and for the "Clear filters" button, which
  changes two of them at once.
\<close>

theorem scroll_reset_on_filter_or_sort_change:
  assumes "containerMounted v"
  shows "(cf \<noteq> columnFilters v \<longrightarrow>
            columnFilters (dispatch (SetColumnFilters cf) v) = cf
            \<and> scrollTop (dispatch (SetColumnFilters cf) v) = 0)
       \<and> (g \<noteq> globalFilter v \<longrightarrow>
            globalFilter (dispatch (SetGlobalFilter g) v) = g
            \<and> scrollTop (dispatch (SetGlobalFilter g) v) = 0)
       \<and> (so \<noteq> sorting v \<longrightarrow>
            sorting (dispatch (SetSorting so) v) = so
            \<and> scrollTop (dispatch (SetSorting so) v) = 0)
       \<and> (columnFilters v \<noteq> [] \<or> globalFilter v \<noteq> [] \<longrightarrow>
            scrollTop (clearFiltersClick v) = 0)"
  using assms
  by (auto simp: dispatch_def clearFiltersClick_def scrollEffect_def containerMounted_def)

theorem scroll_reset_on_filter_or_sort_change_witness:
  "containerMounted (dispatch (Scroll 990) (initViewer (Some exampleResult)))
   \<and> scrollTop (dispatch (Scroll 990) (initViewer (Some exampleResult))) = 990
   \<and> scrollTop (dispatch (SetColumnFilters [(''name'', ''a'')])
        (dispatch (Scroll 990) (initViewer (Some exampleResult)))) = 0
   \<and> scrollTop (dispatch (SetGlobalFilter ''a'')
        (dispatch (Scroll 990) (initViewer (Some exampleResult)))) = 0
   \<and> scrollTop (dispatch (SetSorting (Some (''name'', True)))
        (dispatch (Scroll 990) (initViewer (Some exampleResult)))) = 0"
proof -
  let ?v = "dispatch (Scroll 990) (initViewer (Some exampleResult))"
  have m: "containerMounted ?v" by code_simp
  have s: "scrollTop ?v = 990" by code_simp
  have d: "[(''name'', ''a'')] \<noteq> columnFilters ?v" "''a'' \<noteq> globalFilter ?v"
    "Some (''name'', True) \<noteq> sorting ?v"
    by code_simp+
  show ?thesis
    using scroll_reset_on_filter_or_sort_change[OF m,
        of "[(''name'', ''a'')]" "''a''" "Some (''name'', True)"] m s d
    by simp
qed


subsection \<open>C10: export without a result\<close>

text \<open>
  C10. With no result present, \<open>exportToCSV\<close> and \<open>exportToJSON\<close> do nothing: they
  trigger no download, leave the hook state as it was, and return normally (the model
  has no error branch, as the source has no throw on this path).
\<close>

theorem export_without_result_noop:
  assumes "result h = None"
  shows "exportToCSV today h = (h, []) \<and> exportToJSON stringify today h = (h, [])"
  using assms by (simp add: exportToCSV_def exportToJSON_def)

theorem export_without_result_noop_witness:
  "result \<lparr>query = ''SELECT 1'', result = None, loading = False\<rparr> = None
   \<and> exportToCSV ''2026-01-01'' \<lparr>query = ''SELECT 1'', result = None, loading = False\<rparr>
       = (\<lparr>query = ''SELECT 1'', result = None, loading = False\<rparr>, [])
   \<and> exportToJSON (\<lambda>d. []) ''2026-01-01'' \<lparr>query = ''SELECT 1'', result = None, loading = False\<rparr>
       = (\<lparr>query = ''SELECT 1'', result = None, loading = False\<rparr>, [])"
  using export_without_result_noop
    [of "\<lparr>query = ''SELECT 1'', result = None, loading = False\<rparr>" "''2026-01-01''" "\<lambda>d. []"]
  by simp

end
